theory Spec2Isabelle
  imports Main
begin

section \<open>The highlander admission webhook (webhook.go)\<close>

subsection \<open>Errors and contexts\<close>

text \<open>
  Go error values. \<open>ErrThereCanBeOnlyOne\<close> is the package-level sentinel created by
  \<^verbatim>\<open>errors.New\<close>; \<open>ErrorString\<close> stands for any other leaf error and \<open>WrapError\<close> for an
  error that wraps another one (\<^verbatim>\<open>fmt.Errorf("...%w", err)\<close>). The sentinel is equal only
  to itself, as a pointer created once is.
\<close>

datatype error = ErrThereCanBeOnlyOne | ErrorString string | WrapError string error

text \<open>The \<^verbatim>\<open>Error()\<close> method.\<close>

fun err_Error :: "error \<Rightarrow> string" where
  "err_Error ErrThereCanBeOnlyOne =
     ''there can be only one instance of this object per namespace''"
| "err_Error (ErrorString m) = m"
| "err_Error (WrapError m e) = m"

text \<open>\<^verbatim>\<open>errors.Is(err, target)\<close>: equality along the chain of wrapped errors.\<close>

fun errors_Is :: "error \<Rightarrow> error \<Rightarrow> bool" where
  "errors_Is ErrThereCanBeOnlyOne t = (t = ErrThereCanBeOnlyOne)"
| "errors_Is (ErrorString m) t = (t = ErrorString m)"
| "errors_Is (WrapError m e) t = (t = WrapError m e \<or> errors_Is e t)"

text \<open>
  A \<^verbatim>\<open>context.Context\<close>, as far as a reader of the object store can observe it:
  \<open>Background\<close> is never cancelled; a request-scoped context reports \<open>None\<close> while it is
  live and its cause once it is cancelled or past its deadline.
\<close>

datatype Context = Background | RequestCtx "error option"

fun ctx_Err :: "Context \<Rightarrow> error option" where
  "ctx_Err Background = None"
| "ctx_Err (RequestCtx e) = e"

definition Canceled :: error where
  "Canceled = ErrorString ''context canceled''"

subsection \<open>Data of the control plane\<close>

record GroupVersionKind =
  Group :: string
  Version :: string
  Kind :: string

text \<open>
  An element of an \<^verbatim>\<open>UnstructuredList\<close>; \<open>u_DeletionTimestamp\<close> is what
  \<^verbatim>\<open>GetDeletionTimestamp()\<close> returns (\<open>None\<close> for the nil pointer).
\<close>

record Unstructured =
  u_gvk :: GroupVersionKind
  u_Namespace :: string
  u_Name :: string
  u_DeletionTimestamp :: "string option"

definition GetDeletionTimestamp :: "Unstructured \<Rightarrow> string option" where
  "GetDeletionTimestamp u = u_DeletionTimestamp u"

text \<open>The \<^verbatim>\<open>client.Object\<close> given to \<^verbatim>\<open>NewFor\<close>: its Go type, and its metadata.\<close>

record client_Object =
  obj_GoType :: string
  obj_Namespace :: string
  obj_Name :: string

definition GetNamespace :: "client_Object \<Rightarrow> string" where
  "GetNamespace obj = obj_Namespace obj"

text \<open>
  The read side of \<^verbatim>\<open>client.Client\<close>. \<open>client_List c ctx gvk ns objs\<close> is the call
  \<^verbatim>\<open>c.List(ctx, &ul, &client.ListOptions{Namespace: ns})\<close> on a list whose kind was set to
  \<open>gvk\<close>, against the stored objects \<open>objs\<close>: the error, or the items put into \<^verbatim>\<open>ul\<close>.
  The client is a collaborator outside this package, so it is a parameter.
\<close>

record client =
  client_List :: "Context \<Rightarrow> GroupVersionKind \<Rightarrow> string \<Rightarrow> Unstructured list
                  \<Rightarrow> error + Unstructured list"

datatype Logger = Logger string

text \<open>
  The type scheme: \<open>ObjectKinds\<close> answers \<^verbatim>\<open>apiutil.GVKForObject(obj, scheme)\<close>, which
  returns a pair of a kind and an error.
\<close>

record Scheme =
  ObjectKinds :: "client_Object \<Rightarrow> GroupVersionKind \<times> error option"

definition GVKForObject :: "client_Object \<Rightarrow> Scheme \<Rightarrow> GroupVersionKind \<times> error option" where
  "GVKForObject obj scheme = ObjectKinds scheme obj"

record manager =
  GetClient :: client
  GetLogger :: Logger
  GetScheme :: Scheme

subsection \<open>The webhook\<close>

text \<open>
  The struct \<^verbatim>\<open>Webhook\<close>. The interface-typed fields \<^verbatim>\<open>log\<close>, \<^verbatim>\<open>mgr\<close> and \<^verbatim>\<open>cli\<close> are nil
  (\<open>None\<close>) until \<^verbatim>\<open>SetupWithManager\<close> has run.
\<close>

record Webhook =
  object :: client_Object
  log :: "Logger option"
  gvk :: GroupVersionKind
  mgr :: "manager option"
  cli :: "client option"

definition zero_gvk :: GroupVersionKind where
  "zero_gvk = \<lparr>Group = '''', Version = '''', Kind = ''''\<rparr>"

definition NewFor :: "client_Object \<Rightarrow> Webhook" where
  "NewFor apiType =
     \<lparr>object = apiType, log = None, gvk = zero_gvk, mgr = None, cli = None\<rparr>"

text \<open>\<^verbatim>\<open>admission.Request\<close>: the fields of the embedded \<^verbatim>\<open>AdmissionRequest\<close> in play.\<close>

type_synonym Operation = string

definition Create :: Operation where "Create = ''CREATE''"
definition Update :: Operation where "Update = ''UPDATE''"
definition Delete :: Operation where "Delete = ''DELETE''"
definition Connect :: Operation where "Connect = ''CONNECT''"

record Request =
  req_Operation :: Operation
  req_Kind :: GroupVersionKind
  req_Namespace :: string
  req_Name :: string

text \<open>
  \<^verbatim>\<open>admission.Response\<close>, by the constructor that built it: \<^verbatim>\<open>admission.Allowed(msg)\<close>,
  \<^verbatim>\<open>admission.Denied(msg)\<close>, \<^verbatim>\<open>admission.Errored(code, err)\<close>.
\<close>

datatype Response = Allowed string | Denied string | Errored int error

definition http_StatusBadRequest :: int where
  "http_StatusBadRequest = 400"

text \<open>
  What a call does besides returning: the stored objects it leaves behind, and the calls
  it made on the client and on the logger, in order.
\<close>

datatype event =
    ListCall Context GroupVersionKind string
  | LogError error string "(string \<times> string) list"

record world =
  store :: "Unstructured list"
  trace :: "event list"

definition emit :: "event \<Rightarrow> world \<Rightarrow> world" where
  "emit ev s = s\<lparr>trace := trace s @ [ev]\<rparr>"

text \<open>A call either returns, or panics on a nil interface value.\<close>

datatype 'a outcome = Panic | Return 'a

text \<open>
  \<^verbatim>\<open>ValidateCreate\<close>: one \<^verbatim>\<open>List\<close> under \<^verbatim>\<open>context.Background()\<close>, in the namespace of
  \<^verbatim>\<open>w.object\<close>; then a look at \<^verbatim>\<open>ul.Items[0]\<close>.
\<close>

definition ValidateCreate :: "Webhook \<Rightarrow> world \<Rightarrow> error option outcome \<times> world" where
  "ValidateCreate w s =
     (case cli w of
        None \<Rightarrow> (Panic, s)
      | Some c \<Rightarrow>
          let ns = GetNamespace (object w);
              s1 = emit (ListCall Background (gvk w) ns) s
          in (case client_List c Background (gvk w) ns (store s) of
               Inl err \<Rightarrow>
                 (case log w of
                    None \<Rightarrow> (Panic, s1)
                  | Some l \<Rightarrow>
                      (Return (Some err),
                       emit (LogError err ''Failed to list objects in namespace''
                               [(''namespace'', GetNamespace (object w))]) s1))
             | Inr Items \<Rightarrow>
                 if length Items > 0 then
                   if GetDeletionTimestamp (Items ! 0) \<noteq> None then (Return None, s1)
                   else (Return (Some ErrThereCanBeOnlyOne), s1)
                 else (Return None, s1)))"

text \<open>\<^verbatim>\<open>Handle\<close>. The context \<open>ctx\<close> is a parameter of the method, as in the source.\<close>

definition Handle :: "Webhook \<Rightarrow> Context \<Rightarrow> Request \<Rightarrow> world \<Rightarrow> Response outcome \<times> world" where
  "Handle w ctx req s =
     (if req_Operation req \<noteq> Create then (Return (Allowed ''''), s)
      else
        let k = req_Kind req in
        if Group k \<noteq> Group (gvk w) \<or>
           Version k \<noteq> Version (gvk w) \<or>
           Kind k \<noteq> Kind (gvk w)
        then (Return (Allowed ''''), s)
        else
          (case ValidateCreate w s of
             (Panic, s') \<Rightarrow> (Panic, s')
           | (Return (Some err), s') \<Rightarrow>
               if errors_Is err ErrThereCanBeOnlyOne
               then (Return (Denied (err_Error err)), s')
               else (Return (Errored http_StatusBadRequest err), s')
           | (Return None, s') \<Rightarrow> (Return (Allowed ''''), s')))"

subsection \<open>Route derivation\<close>

text \<open>\<^verbatim>\<open>strings.ReplaceAll(s, old, new)\<close> for one-byte \<open>old\<close> and \<open>new\<close>.\<close>

definition ReplaceAll :: "string \<Rightarrow> char \<Rightarrow> char \<Rightarrow> string" where
  "ReplaceAll s old new = map (\<lambda>c. if c = old then new else c) s"

text \<open>
  \<^verbatim>\<open>strings.ToLower\<close>. On a string of ASCII bytes it adds \<^verbatim>\<open>'a' - 'A'\<close> to each byte in
  \<^verbatim>\<open>'A'..'Z'\<close>; any other string is mapped rune by rune through the Unicode case tables,
  which are the parameter \<open>unicode_lower\<close>.
\<close>

definition lower_byte :: "char \<Rightarrow> char" where
  "lower_byte c =
     (if (65::nat) \<le> of_char c \<and> of_char c \<le> (90::nat)
      then char_of (of_char c + (32::nat)) else c)"

definition ToLower :: "(string \<Rightarrow> string) \<Rightarrow> string \<Rightarrow> string" where
  "ToLower unicode_lower s =
     (if list_all (\<lambda>c. of_char c < (128::nat)) s then map lower_byte s
      else unicode_lower s)"

definition generateValidatePath :: "(string \<Rightarrow> string) \<Rightarrow> GroupVersionKind \<Rightarrow> string" where
  "generateValidatePath unicode_lower k =
     ''/highlander-'' @ ReplaceAll (Group k) (CHR ''.'') (CHR ''-'') @ ''-'' @
     Version k @ ''-'' @ ToLower unicode_lower (Kind k)"

subsection \<open>Registration\<close>

text \<open>
  The \<^verbatim>\<open>admission.Webhook\<close> built by the setup, with what \<^verbatim>\<open>InjectLogger\<close> and
  \<^verbatim>\<open>InjectScheme\<close> put into it, and the webhook server as the routes registered with it,
  in the order of registration.
\<close>

record admission_Webhook =
  Handler :: Webhook
  wh_log :: "Logger option"
  wh_scheme :: "Scheme option"

type_synonym server = "(string \<times> admission_Webhook) list"

text \<open>
  \<^verbatim>\<open>Server.Register(path, hook)\<close> of the hosting runtime: it panics
  (\<^verbatim>\<open>can't register duplicated path\<close>) when the path is registered already, and adds the
  route otherwise.
\<close>

definition Register :: "string \<Rightarrow> admission_Webhook \<Rightarrow> server \<Rightarrow> server outcome" where
  "Register path hook srv =
     (if path \<in> set (map fst srv) then Panic else Return (srv @ [(path, hook)]))"

text \<open>
  \<^verbatim>\<open>SetupWithManager\<close>: the error returned (or the panic of \<^verbatim>\<open>Register\<close>), the receiver
  after the call, and the server after the call. \<^verbatim>\<open>w.gvk\<close> is assigned before the error
  is tested.
\<close>

definition SetupWithManager ::
  "(string \<Rightarrow> string) \<Rightarrow> Webhook \<Rightarrow> manager \<Rightarrow> server
     \<Rightarrow> error option outcome \<times> Webhook \<times> server" where
  "SetupWithManager unicode_lower w m srv =
     (let w1 = w\<lparr>mgr := Some m, cli := Some (GetClient m), log := Some (GetLogger m)\<rparr>;
          (k, err) = GVKForObject (object w1) (GetScheme m);
          w2 = w1\<lparr>gvk := k\<rparr>
      in case err of
           Some e \<Rightarrow> (Return (Some e), w2, srv)
         | None \<Rightarrow>
             let path = generateValidatePath unicode_lower (gvk w2);
                 wh = \<lparr>Handler = w2, wh_log = None, wh_scheme = None\<rparr>;
                 wh = wh\<lparr>wh_log := log w2\<rparr>;
                 wh = wh\<lparr>wh_scheme := Some (GetScheme m)\<rparr>
             in (case Register path wh srv of
                   Panic \<Rightarrow> (Panic, w2, srv)
                 | Return srv' \<Rightarrow> (Return None, w2, srv')))"

subsection \<open>A concrete cluster for examples\<close>

text \<open>
  The scenario of the specification: the protected type is
  \<open>(apps.example.io, v1, Widget)\<close>. \<open>store_client\<close> is a client that reads the stored objects
  as an API server does: it gives up with the context's cause when the context it is
  handed is done, and otherwise returns the objects of the kind asked for, in the
  namespace asked for (every namespace when that is empty). \<open>failing_client e\<close> is a client
  whose list operation fails with \<open>e\<close>.
\<close>

definition widget_gvk :: GroupVersionKind where
  "widget_gvk = \<lparr>Group = ''apps.example.io'', Version = ''v1'', Kind = ''Widget''\<rparr>"

definition store_client :: client where
  "store_client =
     \<lparr>client_List = (\<lambda>ctx k ns objs.
        case ctx_Err ctx of
          Some e \<Rightarrow> Inl e
        | None \<Rightarrow> Inr (filter (\<lambda>u. u_gvk u = k \<and> (ns = '''' \<or> u_Namespace u = ns)) objs))\<rparr>"

definition failing_client :: "error \<Rightarrow> client" where
  "failing_client e = \<lparr>client_List = (\<lambda>ctx k ns objs. Inl e)\<rparr>"

definition widget :: "string \<Rightarrow> string \<Rightarrow> string option \<Rightarrow> Unstructured" where
  "widget ns name del =
     \<lparr>u_gvk = widget_gvk, u_Namespace = ns, u_Name = name, u_DeletionTimestamp = del\<rparr>"

text \<open>A webhook after a successful setup, for a prototype object in namespace \<open>ns\<close>.\<close>

definition gate :: "client \<Rightarrow> string \<Rightarrow> Webhook" where
  "gate c ns =
     \<lparr>object = \<lparr>obj_GoType = ''Widget'', obj_Namespace = ns, obj_Name = ''''\<rparr>,
      log = Some (Logger ''highlander''), gvk = widget_gvk, mgr = None, cli = Some c\<rparr>"

definition create_req :: "string \<Rightarrow> string \<Rightarrow> Request" where
  "create_req ns name =
     \<lparr>req_Operation = Create, req_Kind = widget_gvk, req_Namespace = ns, req_Name = name\<rparr>"

definition cluster :: "Unstructured list \<Rightarrow> world" where
  "cluster objs = \<lparr>store = objs, trace = []\<rparr>"

text \<open>A scheme that knows no type, one that knows the widget, and a manager on a scheme.\<close>

definition no_kind_registered :: error where
  "no_kind_registered = ErrorString ''no kind is registered for the type''"

definition empty_scheme :: Scheme where
  "empty_scheme = \<lparr>ObjectKinds = (\<lambda>obj. (zero_gvk, Some no_kind_registered))\<rparr>"

definition widget_scheme :: Scheme where
  "widget_scheme = \<lparr>ObjectKinds = (\<lambda>obj. (widget_gvk, None))\<rparr>"

definition manager_of :: "Scheme \<Rightarrow> manager" where
  "manager_of sch =
     \<lparr>GetClient = store_client, GetLogger = Logger ''highlander'', GetScheme = sch\<rparr>"

definition widget_object :: client_Object where
  "widget_object = \<lparr>obj_GoType = ''Widget'', obj_Namespace = '''', obj_Name = ''''\<rparr>"

text \<open>The server after one successful setup for the widget on a fresh server.\<close>

definition widget_server :: server where
  "widget_server =
     snd (snd (SetupWithManager (\<lambda>s. s) (NewFor widget_object) (manager_of widget_scheme) []))"

text \<open>
  Status codes \<open>500..599\<close> are the server errors of HTTP; this predicate states the
  claims about the status class of a response and is not part of the webhook.
\<close>

definition is_server_error_code :: "int \<Rightarrow> bool" where
  "is_server_error_code code = (500 \<le> code \<and> code \<le> 599)"

text \<open>The \<^verbatim>\<open>List\<close> calls recorded in a trace: context, kind and namespace of each.\<close>

fun list_calls :: "event list \<Rightarrow> (Context \<times> GroupVersionKind \<times> string) list" where
  "list_calls [] = []"
| "list_calls (ListCall ctx k ns # evs) = (ctx, k, ns) # list_calls evs"
| "list_calls (LogError e msg kvs # evs) = list_calls evs"

section \<open>Properties\<close>

subsection \<open>Shared lemmas\<close>

lemmas example_defs =
  widget_gvk_def store_client_def failing_client_def widget_def gate_def create_req_def
  cluster_def GetNamespace_def GetDeletionTimestamp_def Create_def Update_def

lemma list_calls_append: "list_calls (xs @ ys) = list_calls xs @ list_calls ys"
  by (induction xs rule: list_calls.induct) simp_all

lemma ValidateCreate_Inr:
  assumes "cli w = Some c"
    and "client_List c Background (gvk w) (GetNamespace (object w)) (store s) = Inr items"
  shows "ValidateCreate w s =
    (Return (case items of [] \<Rightarrow> None
             | x # xs \<Rightarrow> if GetDeletionTimestamp x \<noteq> None then None
                         else Some ErrThereCanBeOnlyOne),
     emit (ListCall Background (gvk w) (GetNamespace (object w))) s)"
  using assms by (cases items) (simp_all add: ValidateCreate_def Let_def)

lemma ValidateCreate_Inl:
  assumes "cli w = Some c" and "log w = Some l"
    and "client_List c Background (gvk w) (GetNamespace (object w)) (store s) = Inl e"
  shows "ValidateCreate w s =
    (Return (Some e),
     emit (LogError e ''Failed to list objects in namespace''
             [(''namespace'', GetNamespace (object w))])
       (emit (ListCall Background (gvk w) (GetNamespace (object w))) s))"
  using assms by (simp add: ValidateCreate_def Let_def)

lemma Handle_matching:
  assumes "req_Operation req = Create"
    and "Group (req_Kind req) = Group (gvk w)"
    and "Version (req_Kind req) = Version (gvk w)"
    and "Kind (req_Kind req) = Kind (gvk w)"
  shows "Handle w ctx req s =
    (case ValidateCreate w s of
       (Panic, s') \<Rightarrow> (Panic, s')
     | (Return (Some err), s') \<Rightarrow>
         if errors_Is err ErrThereCanBeOnlyOne
         then (Return (Denied (err_Error err)), s')
         else (Return (Errored http_StatusBadRequest err), s')
     | (Return None, s') \<Rightarrow> (Return (Allowed ''''), s'))"
  using assms by (simp add: Handle_def Let_def)

lemma store_ValidateCreate: "store (snd (ValidateCreate w s)) = store s"
  by (simp add: ValidateCreate_def Let_def emit_def split: option.splits sum.splits)

lemma list_calls_ValidateCreate:
  assumes "cli w = Some c"
  shows "list_calls (trace (snd (ValidateCreate w s))) =
         list_calls (trace s) @ [(Background, gvk w, GetNamespace (object w))]"
  using assms
  by (simp add: ValidateCreate_def Let_def emit_def list_calls_append
        split: option.splits sum.splits)

lemma snd_Handle_matching:
  assumes "req_Operation req = Create"
    and "Group (req_Kind req) = Group (gvk w)"
    and "Version (req_Kind req) = Version (gvk w)"
    and "Kind (req_Kind req) = Kind (gvk w)"
  shows "snd (Handle w ctx req s) = snd (ValidateCreate w s)"
  unfolding Handle_matching [OF assms]
  by (simp split: prod.splits outcome.splits option.splits)

subsection \<open>The enforcement check\<close>

text \<open>
  C1. The claim: on a matching create request whose query succeeds, \<open>Handle\<close> denies exactly
  when the snapshot holds an instance that is not being deleted, also when that instance
  comes after a first element that is being deleted. The code reads \<^verbatim>\<open>ul.Items[0]\<close> only:
  when the first element carries a deletion timestamp the request is allowed, whatever
  the rest of the snapshot holds. The example is a snapshot of a deleting \<open>w0\<close> followed
  by a live \<open>w1\<close>.
\<close>

theorem Handle_first_item_decides:
  assumes "cli w = Some c"
    and "req_Operation req = Create"
    and "Group (req_Kind req) = Group (gvk w)"
    and "Version (req_Kind req) = Version (gvk w)"
    and "Kind (req_Kind req) = Kind (gvk w)"
    and "client_List c Background (gvk w) (GetNamespace (object w)) (store s) = Inr (x # rest)"
    and "GetDeletionTimestamp x \<noteq> None"
  shows "fst (Handle w ctx req s) = Return (Allowed '''')"
  using assms(7)
  by (simp add: Handle_matching [OF assms(2-5)] ValidateCreate_Inr [OF assms(1,6)])

theorem Handle_first_item_decides_witness:
  "client_List store_client Background widget_gvk ''team-a''
     [widget ''team-a'' ''w0'' (Some ''2021-08-01T00:00:00Z''), widget ''team-a'' ''w1'' None] =
     Inr [widget ''team-a'' ''w0'' (Some ''2021-08-01T00:00:00Z''), widget ''team-a'' ''w1'' None] \<and>
   GetDeletionTimestamp (widget ''team-a'' ''w1'' None) = None \<and>
   fst (Handle (gate store_client ''team-a'') Background (create_req ''team-a'' ''w2'')
          (cluster [widget ''team-a'' ''w0'' (Some ''2021-08-01T00:00:00Z''),
                    widget ''team-a'' ''w1'' None])) =
     Return (Allowed '''')"
  using Handle_first_item_decides
    [of "gate store_client ''team-a''" store_client "create_req ''team-a'' ''w2''"
        "cluster [widget ''team-a'' ''w0'' (Some ''2021-08-01T00:00:00Z''),
                  widget ''team-a'' ''w1'' None]"
        "widget ''team-a'' ''w0'' (Some ''2021-08-01T00:00:00Z'')"
        "[widget ''team-a'' ''w1'' None]" Background]
  by (simp add: example_defs)

text \<open>
  C2. The claim: the check lists the namespace of the candidate object carried in the
  request. The code lists the namespace of \<^verbatim>\<open>w.object\<close>, the prototype handed to
  \<^verbatim>\<open>NewFor\<close>: a matching create request causes exactly one \<^verbatim>\<open>List\<close> call, in that
  namespace, and the namespace of the request changes neither the verdict nor the call.
  In the example the prototype has no namespace, the request is for \<open>team-b\<close>, which is
  empty, and the request is denied for a widget of \<open>team-a\<close>.
\<close>

theorem Handle_lists_namespace_of_prototype:
  assumes "cli w = Some c"
    and "req_Operation req = Create"
    and "Group (req_Kind req) = Group (gvk w)"
    and "Version (req_Kind req) = Version (gvk w)"
    and "Kind (req_Kind req) = Kind (gvk w)"
  shows "list_calls (trace (snd (Handle w ctx req s))) =
           list_calls (trace s) @ [(Background, gvk w, GetNamespace (object w))] \<and>
         Handle w ctx (req\<lparr>req_Namespace := ns\<rparr>) s = Handle w ctx req s"
proof
  show "list_calls (trace (snd (Handle w ctx req s))) =
          list_calls (trace s) @ [(Background, gvk w, GetNamespace (object w))]"
    by (simp add: snd_Handle_matching [OF assms(2-5)] list_calls_ValidateCreate [OF assms(1)])
  show "Handle w ctx (req\<lparr>req_Namespace := ns\<rparr>) s = Handle w ctx req s"
    by (simp add: Handle_def)
qed

theorem Handle_lists_namespace_of_prototype_witness:
  "list_calls (trace (snd (Handle (gate store_client '''') Background
      (create_req ''team-b'' ''w2'') (cluster [widget ''team-a'' ''w1'' None])))) =
     [(Background, widget_gvk, '''')] \<and>
   fst (Handle (gate store_client '''') Background (create_req ''team-b'' ''w2'')
      (cluster [widget ''team-a'' ''w1'' None])) =
     Return (Denied ''there can be only one instance of this object per namespace'') \<and>
   client_List store_client Background widget_gvk ''team-b'' [widget ''team-a'' ''w1'' None] =
     Inr []"
  using Handle_lists_namespace_of_prototype
    [of "gate store_client ''''" store_client "create_req ''team-b'' ''w2''" Background
        "cluster [widget ''team-a'' ''w1'' None]" "''team-a''"]
  by (simp add: example_defs Handle_def ValidateCreate_def Let_def emit_def)

text \<open>
  C3. The claim: when the list operation fails with \<open>e\<close>, \<open>Handle\<close> returns an error
  verdict wrapping \<open>e\<close>, and the verdict maps to a server-error status code. The verdict is
  \<^verbatim>\<open>admission.Errored(http.StatusBadRequest, err)\<close>: its code is 400, which is not a
  server-error code.
\<close>

theorem Handle_list_error_counterexample:
  "fst (Handle (gate (failing_client (ErrorString ''connection refused'')) ''team-a'')
          Background (create_req ''team-a'' ''w2'') (cluster [])) =
     Return (Errored 400 (ErrorString ''connection refused'')) \<and>
   \<not> is_server_error_code 400"
  by (simp add: example_defs Handle_def ValidateCreate_def Let_def emit_def
        http_StatusBadRequest_def is_server_error_code_def)

text \<open>
  C3, as amended: on a matching create request to a webhook that has been set up, a list
  operation failing with an error \<open>e\<close> that is not the sentinel (and wraps none) makes
  \<open>Handle\<close> return the error verdict of status code 400 carrying \<open>e\<close>.
\<close>

theorem Handle_list_error:
  assumes "cli w = Some c" and "log w = Some l"
    and "req_Operation req = Create"
    and "Group (req_Kind req) = Group (gvk w)"
    and "Version (req_Kind req) = Version (gvk w)"
    and "Kind (req_Kind req) = Kind (gvk w)"
    and "client_List c Background (gvk w) (GetNamespace (object w)) (store s) = Inl e"
    and "\<not> errors_Is e ErrThereCanBeOnlyOne"
  shows "fst (Handle w ctx req s) = Return (Errored 400 e)"
  using assms(8)
  by (simp add: Handle_matching [OF assms(3-6)] ValidateCreate_Inl [OF assms(1,2,7)]
        http_StatusBadRequest_def)

theorem Handle_list_error_witness:
  "\<not> errors_Is (WrapError ''list widgets: timeout'' (ErrorString ''timeout''))
       ErrThereCanBeOnlyOne \<and>
   fst (Handle (gate (failing_client (WrapError ''list widgets: timeout'' (ErrorString ''timeout'')))
                  ''team-a'')
          Background (create_req ''team-a'' ''w2'') (cluster [widget ''team-a'' ''w1'' None])) =
     Return (Errored 400 (WrapError ''list widgets: timeout'' (ErrorString ''timeout'')))"
  using Handle_list_error
    [of "gate (failing_client (WrapError ''list widgets: timeout'' (ErrorString ''timeout'')))
           ''team-a''"
        "failing_client (WrapError ''list widgets: timeout'' (ErrorString ''timeout''))"
        "Logger ''highlander''" "create_req ''team-a'' ''w2''"
        "cluster [widget ''team-a'' ''w1'' None]"
        "WrapError ''list widgets: timeout'' (ErrorString ''timeout'')" Background]
  by (simp add: example_defs)

subsection \<open>Route derivation\<close>

text \<open>
  C4. The claim: the route is a function of (group, version, kind), and two distinct kinds
  of one group and version get distinct routes. The kind is lower-cased, so \<open>Widget\<close> and
  \<open>widget\<close> get the same route.
\<close>

theorem generateValidatePath_kind_counterexample:
  "''Widget'' \<noteq> ''widget'' \<and>
   generateValidatePath (\<lambda>s. s)
     \<lparr>Group = ''apps.example.io'', Version = ''v1'', Kind = ''Widget''\<rparr> =
   generateValidatePath (\<lambda>s. s)
     \<lparr>Group = ''apps.example.io'', Version = ''v1'', Kind = ''widget''\<rparr>"
  by code_simp

text \<open>
  C4, as amended: the route is a function of (group, version, kind), and two kinds of one
  group and version get the same route exactly when their lower-cased forms are equal.
\<close>

theorem generateValidatePath_injective_up_to_case:
  "(generateValidatePath ul \<lparr>Group = g, Version = v, Kind = k1\<rparr> =
    generateValidatePath ul \<lparr>Group = g, Version = v, Kind = k2\<rparr>) =
   (ToLower ul k1 = ToLower ul k2)"
  by (simp add: generateValidatePath_def)

theorem generateValidatePath_injective_up_to_case_witness:
  "generateValidatePath (\<lambda>s. s)
     \<lparr>Group = ''apps.example.io'', Version = ''v1'', Kind = ''Widget''\<rparr> \<noteq>
   generateValidatePath (\<lambda>s. s)
     \<lparr>Group = ''apps.example.io'', Version = ''v1'', Kind = ''Gadget''\<rparr> \<and>
   generateValidatePath (\<lambda>s. s)
     \<lparr>Group = ''apps.example.io'', Version = ''v1'', Kind = ''Widget''\<rparr> =
     ''/highlander-apps-example-io-v1-widget''"
proof -
  have w: "ToLower (\<lambda>s. s) ''Widget'' = ''widget''" by code_simp
  have g: "ToLower (\<lambda>s. s) ''Gadget'' = ''gadget''" by code_simp
  show ?thesis
    using generateValidatePath_injective_up_to_case
      [of "\<lambda>s. s" "''apps.example.io''" "''v1''" "''Widget''" "''Gadget''"]
    by (simp add: w g generateValidatePath_def ReplaceAll_def)
qed

subsection \<open>The caller's context\<close>

text \<open>
  C5. The claim: the read is bound to the context handed to \<open>Handle\<close>, so that a cancelled
  context aborts the read and yields an error verdict carrying the cause. The read is
  issued under \<^verbatim>\<open>context.Background()\<close>: with a cancelled caller context and a client that
  would give up under it, the request is still answered from the store, here allowed.
\<close>

theorem Handle_cancelled_context_counterexample:
  "client_List store_client (RequestCtx (Some Canceled)) widget_gvk ''team-a'' [] = Inl Canceled \<and>
   fst (Handle (gate store_client ''team-a'') (RequestCtx (Some Canceled))
          (create_req ''team-a'' ''w2'') (cluster [])) = Return (Allowed '''')"
  by (simp add: example_defs Handle_def ValidateCreate_def Let_def emit_def)

text \<open>
  C5, as amended: the read is issued under the background context and not under the
  context handed to \<open>Handle\<close>; the verdict and the calls made are the same for every
  caller context, cancelled or not, and the one \<^verbatim>\<open>List\<close> call of a matching create request
  on a webhook with a client carries \<open>Background\<close>.
\<close>

theorem Handle_reads_under_background_context:
  "Handle w ctx req s = Handle w Background req s \<and>
   map fst (list_calls (trace (snd (Handle w ctx req s)))) =
     map fst (list_calls (trace s)) @
     (if req_Operation req = Create \<and> Group (req_Kind req) = Group (gvk w) \<and>
         Version (req_Kind req) = Version (gvk w) \<and> Kind (req_Kind req) = Kind (gvk w) \<and>
         cli w \<noteq> None
      then [Background] else [])"
proof
  show "Handle w ctx req s = Handle w Background req s"
    by (simp add: Handle_def)
next
  show "map fst (list_calls (trace (snd (Handle w ctx req s)))) =
     map fst (list_calls (trace s)) @
     (if req_Operation req = Create \<and> Group (req_Kind req) = Group (gvk w) \<and>
         Version (req_Kind req) = Version (gvk w) \<and> Kind (req_Kind req) = Kind (gvk w) \<and>
         cli w \<noteq> None
      then [Background] else [])"
  proof (cases "req_Operation req = Create \<and> Group (req_Kind req) = Group (gvk w) \<and>
         Version (req_Kind req) = Version (gvk w) \<and> Kind (req_Kind req) = Kind (gvk w)")
    case True
    then have m: "req_Operation req = Create" "Group (req_Kind req) = Group (gvk w)"
      "Version (req_Kind req) = Version (gvk w)" "Kind (req_Kind req) = Kind (gvk w)"
      by simp_all
    show ?thesis
    proof (cases "cli w")
      case None
      then show ?thesis
        by (simp add: snd_Handle_matching [OF m] ValidateCreate_def)
    next
      case (Some c)
      then show ?thesis
        using True
        by (simp add: snd_Handle_matching [OF m] list_calls_ValidateCreate [OF Some])
    qed
  next
    case False
    then show ?thesis
      by (auto simp add: Handle_def Let_def)
  qed
qed

theorem Handle_reads_under_background_context_witness:
  "Handle (gate store_client ''team-a'') (RequestCtx (Some Canceled))
     (create_req ''team-a'' ''w2'') (cluster [widget ''team-a'' ''w1'' None]) =
   Handle (gate store_client ''team-a'') Background
     (create_req ''team-a'' ''w2'') (cluster [widget ''team-a'' ''w1'' None]) \<and>
   map fst (list_calls (trace (snd (Handle (gate store_client ''team-a'')
     (RequestCtx (Some Canceled)) (create_req ''team-a'' ''w2'')
     (cluster [widget ''team-a'' ''w1'' None]))))) = [Background]"
proof -
  have matching:
    "req_Operation (create_req ''team-a'' ''w2'') = Create \<and>
     Group (req_Kind (create_req ''team-a'' ''w2'')) = Group (gvk (gate store_client ''team-a'')) \<and>
     Version (req_Kind (create_req ''team-a'' ''w2'')) =
       Version (gvk (gate store_client ''team-a'')) \<and>
     Kind (req_Kind (create_req ''team-a'' ''w2'')) = Kind (gvk (gate store_client ''team-a'')) \<and>
     cli (gate store_client ''team-a'') \<noteq> None"
    by (simp add: gate_def create_req_def)
  have empty: "list_calls (trace (cluster [widget ''team-a'' ''w1'' None])) = []"
    by (simp add: cluster_def)
  note inst = Handle_reads_under_background_context
      [of "gate store_client ''team-a''" "RequestCtx (Some Canceled)"
          "create_req ''team-a'' ''w2''" "cluster [widget ''team-a'' ''w1'' None]"]
  from inst have same: "Handle (gate store_client ''team-a'') (RequestCtx (Some Canceled))
     (create_req ''team-a'' ''w2'') (cluster [widget ''team-a'' ''w1'' None]) =
   Handle (gate store_client ''team-a'') Background
     (create_req ''team-a'' ''w2'') (cluster [widget ''team-a'' ''w1'' None])"
    by (rule conjunct1)
  from inst [THEN conjunct2] have calls: "map fst (list_calls (trace (snd (Handle (gate store_client ''team-a'')
     (RequestCtx (Some Canceled)) (create_req ''team-a'' ''w2'')
     (cluster [widget ''team-a'' ''w1'' None]))))) = [Background]"
    unfolding empty using matching by simp
  from same calls show ?thesis by (rule conjI)
qed

subsection \<open>Verdicts on a snapshot of one instance\<close>

text \<open>
  C6. On a matching create request, when the list returns exactly one instance and it has
  no deletion timestamp, \<open>Handle\<close> returns the denial whose reason is the text of
  \<open>ErrThereCanBeOnlyOne\<close>, letter for letter; \<open>ValidateCreate\<close> signals the condition by
  returning that sentinel, which \<^verbatim>\<open>errors.Is\<close> recognises and which no other leaf error
  is taken for, not even one with the same text.
\<close>

theorem Handle_denies_single_live_instance:
  assumes "cli w = Some c"
    and "req_Operation req = Create"
    and "Group (req_Kind req) = Group (gvk w)"
    and "Version (req_Kind req) = Version (gvk w)"
    and "Kind (req_Kind req) = Kind (gvk w)"
    and "client_List c Background (gvk w) (GetNamespace (object w)) (store s) = Inr [x]"
    and "GetDeletionTimestamp x = None"
  shows "fst (Handle w ctx req s) =
           Return (Denied ''there can be only one instance of this object per namespace'') \<and>
         fst (ValidateCreate w s) = Return (Some ErrThereCanBeOnlyOne) \<and>
         errors_Is ErrThereCanBeOnlyOne ErrThereCanBeOnlyOne \<and>
         \<not> errors_Is (ErrorString m) ErrThereCanBeOnlyOne"
  using assms(7)
  by (simp add: Handle_matching [OF assms(2-5)] ValidateCreate_Inr [OF assms(1,6)])

theorem Handle_denies_single_live_instance_witness:
  "client_List store_client Background widget_gvk ''team-a'' [widget ''team-a'' ''w1'' None] =
     Inr [widget ''team-a'' ''w1'' None] \<and>
   fst (Handle (gate store_client ''team-a'') Background (create_req ''team-a'' ''w2'')
          (cluster [widget ''team-a'' ''w1'' None])) =
     Return (Denied ''there can be only one instance of this object per namespace'') \<and>
   \<not> errors_Is (ErrorString ''there can be only one instance of this object per namespace'')
       ErrThereCanBeOnlyOne"
  using Handle_denies_single_live_instance
    [of "gate store_client ''team-a''" store_client "create_req ''team-a'' ''w2''"
        "cluster [widget ''team-a'' ''w1'' None]" "widget ''team-a'' ''w1'' None" Background
        "''there can be only one instance of this object per namespace''"]
  by (simp add: example_defs)

text \<open>
  C7. On a matching create request, when the list returns exactly one instance and it
  carries a deletion timestamp, \<open>Handle\<close> allows the request.
\<close>

theorem Handle_allows_single_deleting_instance:
  assumes "cli w = Some c"
    and "req_Operation req = Create"
    and "Group (req_Kind req) = Group (gvk w)"
    and "Version (req_Kind req) = Version (gvk w)"
    and "Kind (req_Kind req) = Kind (gvk w)"
    and "client_List c Background (gvk w) (GetNamespace (object w)) (store s) = Inr [x]"
    and "GetDeletionTimestamp x = Some t"
  shows "fst (Handle w ctx req s) = Return (Allowed '''')"
  using assms(7)
  by (simp add: Handle_matching [OF assms(2-5)] ValidateCreate_Inr [OF assms(1,6)])

theorem Handle_allows_single_deleting_instance_witness:
  "client_List store_client Background widget_gvk ''team-a''
     [widget ''team-a'' ''w1'' (Some ''2021-08-01T00:00:00Z'')] =
     Inr [widget ''team-a'' ''w1'' (Some ''2021-08-01T00:00:00Z'')] \<and>
   fst (Handle (gate store_client ''team-a'') Background (create_req ''team-a'' ''w2'')
          (cluster [widget ''team-a'' ''w1'' (Some ''2021-08-01T00:00:00Z'')])) =
     Return (Allowed '''')"
  using Handle_allows_single_deleting_instance
    [of "gate store_client ''team-a''" store_client "create_req ''team-a'' ''w2''"
        "cluster [widget ''team-a'' ''w1'' (Some ''2021-08-01T00:00:00Z'')]"
        "widget ''team-a'' ''w1'' (Some ''2021-08-01T00:00:00Z'')"
        "''2021-08-01T00:00:00Z''" Background]
  by (simp add: example_defs)

subsection \<open>Requests the webhook does not judge\<close>

text \<open>
  C8. A request whose operation is not create, or whose group, version or kind differs
  from the webhook's, is allowed with an empty message; nothing is listed or logged, so
  the state of the world, its trace of calls included, is the one before the call. The
  contents of the store play no part, nor does the webhook need a client.
\<close>

theorem Handle_allows_other_requests:
  assumes "req_Operation req \<noteq> Create \<or>
           Group (req_Kind req) \<noteq> Group (gvk w) \<or>
           Version (req_Kind req) \<noteq> Version (gvk w) \<or>
           Kind (req_Kind req) \<noteq> Kind (gvk w)"
  shows "Handle w ctx req s = (Return (Allowed ''''), s)"
  using assms by (auto simp add: Handle_def Let_def)

theorem Handle_allows_other_requests_witness:
  "Handle (gate store_client ''team-a'') Background
     ((create_req ''team-a'' ''w2'')\<lparr>req_Operation := Update\<rparr>)
     (cluster [widget ''team-a'' ''w1'' None]) =
     (Return (Allowed ''''), cluster [widget ''team-a'' ''w1'' None]) \<and>
   Handle (gate store_client ''team-a'') Background
     ((create_req ''team-a'' ''w2'')\<lparr>req_Kind := widget_gvk\<lparr>Kind := ''Gadget''\<rparr>\<rparr>)
     (cluster [widget ''team-a'' ''w1'' None]) =
     (Return (Allowed ''''), cluster [widget ''team-a'' ''w1'' None]) \<and>
   Handle (NewFor widget_object) Background
     ((create_req ''team-a'' ''w2'')\<lparr>req_Operation := Delete\<rparr>)
     (cluster [widget ''team-a'' ''w1'' None]) =
     (Return (Allowed ''''), cluster [widget ''team-a'' ''w1'' None])"
  using
    Handle_allows_other_requests
      [of "(create_req ''team-a'' ''w2'')\<lparr>req_Operation := Update\<rparr>"
          "gate store_client ''team-a''" Background "cluster [widget ''team-a'' ''w1'' None]"]
    Handle_allows_other_requests
      [of "(create_req ''team-a'' ''w2'')\<lparr>req_Kind := widget_gvk\<lparr>Kind := ''Gadget''\<rparr>\<rparr>"
          "gate store_client ''team-a''" Background "cluster [widget ''team-a'' ''w1'' None]"]
    Handle_allows_other_requests
      [of "(create_req ''team-a'' ''w2'')\<lparr>req_Operation := Delete\<rparr>"
          "NewFor widget_object" Background "cluster [widget ''team-a'' ''w1'' None]"]
  by (simp add: example_defs Delete_def)

subsection \<open>The store is only read\<close>

text \<open>
  C9. For every webhook, context, request and state, the stored objects after \<open>Handle\<close>
  are the stored objects before it, whatever the verdict.
\<close>

theorem Handle_leaves_store_unchanged:
  "store (snd (Handle w ctx req s)) = store s"
  using store_ValidateCreate [of w s]
  by (auto simp add: Handle_def Let_def split: prod.splits outcome.splits option.splits)

theorem Handle_leaves_store_unchanged_witness:
  "store (snd (Handle (gate store_client ''team-a'') Background (create_req ''team-a'' ''w2'')
     (cluster [widget ''team-a'' ''w1'' None]))) = [widget ''team-a'' ''w1'' None] \<and>
   store (snd (Handle (gate (failing_client (ErrorString ''connection refused'')) ''team-a'')
     Background (create_req ''team-a'' ''w2'') (cluster [widget ''team-a'' ''w1'' None]))) =
     [widget ''team-a'' ''w1'' None]"
  using
    Handle_leaves_store_unchanged
      [of "gate store_client ''team-a''" Background "create_req ''team-a'' ''w2''"
          "cluster [widget ''team-a'' ''w1'' None]"]
    Handle_leaves_store_unchanged
      [of "gate (failing_client (ErrorString ''connection refused'')) ''team-a''" Background
          "create_req ''team-a'' ''w2''" "cluster [widget ''team-a'' ''w1'' None]"]
  by (simp add: cluster_def)

subsection \<open>Setup\<close>

text \<open>
  C10. When the lookup of the prototype's kind fails, \<open>SetupWithManager\<close> returns that error
  and the webhook server has received no registration, whatever routes it holds.
  Registration happens on the success path only, after the kind has been found: the
  route derived from that kind is added and no error is returned when the server does
  not hold the route yet, and the call panics in \<^verbatim>\<open>Register\<close>, leaving the server as it
  was, when it does.
\<close>

theorem SetupWithManager_registers_only_on_success:
  "(case GVKForObject (object w) (GetScheme m) of
      (k, Some e) \<Rightarrow>
        fst (SetupWithManager ul w m srv) = Return (Some e) \<and>
        snd (snd (SetupWithManager ul w m srv)) = srv
    | (k, None) \<Rightarrow>
        if generateValidatePath ul k \<in> set (map fst srv)
        then fst (SetupWithManager ul w m srv) = Panic \<and>
             snd (snd (SetupWithManager ul w m srv)) = srv
        else fst (SetupWithManager ul w m srv) = Return None \<and>
             map fst (snd (snd (SetupWithManager ul w m srv))) =
               map fst srv @ [generateValidatePath ul k])"
  by (simp add: SetupWithManager_def Let_def Register_def split: prod.splits option.splits)

theorem SetupWithManager_registers_only_on_success_witness:
  "GVKForObject widget_object (GetScheme (manager_of empty_scheme)) =
     (zero_gvk, Some no_kind_registered) \<and>
   fst (SetupWithManager (\<lambda>s. s) (NewFor widget_object) (manager_of empty_scheme) []) =
     Return (Some no_kind_registered) \<and>
   snd (snd (SetupWithManager (\<lambda>s. s) (NewFor widget_object) (manager_of empty_scheme) [])) = [] \<and>
   fst (SetupWithManager (\<lambda>s. s) (NewFor widget_object) (manager_of empty_scheme)
          widget_server) = Return (Some no_kind_registered) \<and>
   snd (snd (SetupWithManager (\<lambda>s. s) (NewFor widget_object) (manager_of empty_scheme)
          widget_server)) = widget_server \<and>
   fst (SetupWithManager (\<lambda>s. s) (NewFor widget_object) (manager_of widget_scheme) []) =
     Return None \<and>
   map fst widget_server = [''/highlander-apps-example-io-v1-widget''] \<and>
   fst (SetupWithManager (\<lambda>s. s) (NewFor widget_object) (manager_of widget_scheme)
          widget_server) = Panic \<and>
   snd (snd (SetupWithManager (\<lambda>s. s) (NewFor widget_object) (manager_of widget_scheme)
          widget_server)) = widget_server"
proof -
  have route: "generateValidatePath (\<lambda>s. s) widget_gvk = ''/highlander-apps-example-io-v1-widget''"
    by code_simp
  have lookup_fails: "GVKForObject (object (NewFor widget_object))
      (GetScheme (manager_of empty_scheme)) = (zero_gvk, Some no_kind_registered)"
    by (simp add: NewFor_def manager_of_def empty_scheme_def GVKForObject_def)
  have lookup: "GVKForObject (object (NewFor widget_object))
      (GetScheme (manager_of widget_scheme)) = (widget_gvk, None)"
    by (simp add: NewFor_def manager_of_def widget_scheme_def GVKForObject_def)
  have fresh: "fst (SetupWithManager (\<lambda>s. s) (NewFor widget_object) (manager_of widget_scheme) []) =
       Return None \<and> map fst widget_server = [''/highlander-apps-example-io-v1-widget'']"
    using SetupWithManager_registers_only_on_success
        [where w = "NewFor widget_object" and m = "manager_of widget_scheme"
           and ul = "\<lambda>s. s" and srv = "[]"]
    by (simp add: lookup route widget_server_def)
  then have routes: "map fst widget_server = [''/highlander-apps-example-io-v1-widget'']"
    by (rule conjunct2)
  have again: "fst (SetupWithManager (\<lambda>s. s) (NewFor widget_object) (manager_of widget_scheme)
          widget_server) = Panic \<and>
     snd (snd (SetupWithManager (\<lambda>s. s) (NewFor widget_object) (manager_of widget_scheme)
          widget_server)) = widget_server"
    using SetupWithManager_registers_only_on_success
        [where w = "NewFor widget_object" and m = "manager_of widget_scheme"
           and ul = "\<lambda>s. s" and srv = widget_server]
    by (simp add: lookup route routes)
  have failed: "fst (SetupWithManager (\<lambda>s. s) (NewFor widget_object) (manager_of empty_scheme) []) =
       Return (Some no_kind_registered) \<and>
     snd (snd (SetupWithManager (\<lambda>s. s) (NewFor widget_object) (manager_of empty_scheme) [])) = []"
    using SetupWithManager_registers_only_on_success
        [where w = "NewFor widget_object" and m = "manager_of empty_scheme"
           and ul = "\<lambda>s. s" and srv = "[]"]
    by (simp add: lookup_fails)
  have failed_held: "fst (SetupWithManager (\<lambda>s. s) (NewFor widget_object)
       (manager_of empty_scheme) widget_server) = Return (Some no_kind_registered) \<and>
     snd (snd (SetupWithManager (\<lambda>s. s) (NewFor widget_object) (manager_of empty_scheme)
       widget_server)) = widget_server"
    using SetupWithManager_registers_only_on_success
        [where w = "NewFor widget_object" and m = "manager_of empty_scheme"
           and ul = "\<lambda>s. s" and srv = widget_server]
    by (simp add: lookup_fails)
  have obj: "GVKForObject widget_object (GetScheme (manager_of empty_scheme)) =
     (zero_gvk, Some no_kind_registered)"
    by (simp add: manager_of_def empty_scheme_def GVKForObject_def)
  from obj failed failed_held fresh again show ?thesis by simp
qed

end
